theory Spec2Isabelle
  imports Main "HOL-Library.Word"
begin

section \<open>DrawingCNC: the capture, convert and trace pipeline of drawingcnc.py\<close>

text \<open>
  The script is glue around three external programs. Its functions are embedded as
  state-passing functions over a \<^verbatim>\<open>world\<close> (the table of child processes the
  script has started, the file system, and a log of the library calls it made),
  running against an environment \<^verbatim>\<open>env\<close> that fixes everything the script does
  not control: which commands can be launched and how a launch fails, what each program
  does with what it sees on its standard input, and which file names can be opened for
  writing.
\<close>

subsection \<open>Values, exceptions and outcomes\<close>

type_synonym byte = "8 word"
type_synonym bytes = "byte list"

text \<open>Python keeps \<^verbatim>\<open>bytes\<close> and \<^verbatim>\<open>str\<close> apart; a text-mode file accepts only the latter.\<close>

datatype pyval = PyBytes bytes | PyStr string

text \<open>
  The exceptions met here. The first three are the ways a launch or an \<^verbatim>\<open>open\<close> can
  fail that Python names with a class of their own (nothing at that path; a directory of the
  path is not a directory; no permission), \<^verbatim>\<open>OSError\<close> stands for the others. A handler for
  \<^verbatim>\<open>FileNotFoundError\<close> catches none of the other five.
\<close>

datatype exn =
    FileNotFoundError
  | NotADirectoryError
  | PermissionError
  | OSError
  | TypeError
  | IndexError

text \<open>
  How a piece of the script ends: it returns a value, it raises \<^verbatim>\<open>SystemExit\<close>
  through \<^verbatim>\<open>sys.exit(message)\<close>, it raises another exception, or it blocks for ever.
\<close>

datatype 'a outcome = Returns 'a | SysExit string | Raises exn | Hangs

subsection \<open>The environment: external programs\<close>

text \<open>
  What a child process observes on its standard input over its whole life: some bytes
  followed by end of stream, or some bytes after which the stream stays open and
  nothing more arrives.
\<close>

datatype stdin_obs = Eof bytes | Stalled bytes

text \<open>
  A program maps what it observes on standard input to \<^verbatim>\<open>Some (status, output)\<close>
  when it terminates with that exit status having written that output, and to
  \<^verbatim>\<open>None\<close> when it never terminates.
\<close>

type_synonym tool = "stdin_obs \<Rightarrow> (nat \<times> bytes) option"

text \<open>
  What \<^verbatim>\<open>Popen\<close> meets when it is given a command: a program that starts, or the
  exception with which the launch fails.
\<close>

datatype launch = Launches tool | Fails exn

record env =
  programs :: "string \<Rightarrow> launch"
  parent_stdin :: stdin_obs
  openable :: "string \<Rightarrow> bool"

subsection \<open>The world: child processes, files, and the log of calls\<close>

text \<open>
  The \<^verbatim>\<open>stdin\<close> argument of \<^verbatim>\<open>Popen\<close>: absent (the child inherits the script's
  own standard input), \<^verbatim>\<open>subprocess.PIPE\<close> (a fresh pipe whose write end the
  script holds), or the standard output of an earlier child.
\<close>

datatype stdin_src = Inherit | Parent_pipe | From_stdout nat

record proc =
  p_cmd :: string
  p_stdin :: stdin_src
  p_fed :: bytes
  p_stdin_open :: bool
  p_stdout_open :: bool
  p_waited :: bool

datatype event =
    Ev_Popen string
  | Ev_close_stdout nat
  | Ev_communicate nat
  | Ev_wait nat
  | Ev_open string
  | Ev_write string

record world =
  procs :: "proc list"
  files :: "string \<rightharpoonup> string"
  log :: "event list"

type_synonym 'a action = "world \<Rightarrow> 'a outcome \<times> world"

subsection \<open>Sequencing, exceptions\<close>

definition return :: "'a \<Rightarrow> 'a action" where
  "return x w = (Returns x, w)"

text \<open>One statement after another: the second runs only if the first returns.\<close>

definition then_do :: "'a action \<Rightarrow> ('a \<Rightarrow> 'b action) \<Rightarrow> 'b action" where
  "then_do m f w =
     (case m w of
        (Returns x, w1) \<Rightarrow> f x w1
      | (SysExit s, w1) \<Rightarrow> (SysExit s, w1)
      | (Raises x, w1) \<Rightarrow> (Raises x, w1)
      | (Hangs, w1) \<Rightarrow> (Hangs, w1))"

text \<open>\<^verbatim>\<open>try: m  except FileNotFoundError: handler\<close>\<close>

definition except_FileNotFoundError :: "'a action \<Rightarrow> 'a action \<Rightarrow> 'a action" where
  "except_FileNotFoundError m handler w =
     (case m w of
        (Raises FileNotFoundError, w1) \<Rightarrow> handler w1
      | r \<Rightarrow> r)"

definition sys_exit :: "string \<Rightarrow> 'a action" where
  "sys_exit msg w = (SysExit msg, w)"

text \<open>\<^verbatim>\<open>xs[i]\<close> for a non-negative index: out of range raises \<^verbatim>\<open>IndexError\<close>.\<close>

definition index :: "'a list \<Rightarrow> nat \<Rightarrow> 'a action" where
  "index xs i w = (if i < length xs then (Returns (xs ! i), w) else (Raises IndexError, w))"

subsection \<open>Child processes\<close>

text \<open>
  What a child sees on its standard input, given the results of the children started
  before it. A pipe from the script ends only once the script has closed its write end;
  a pipe from another child ends when that child terminates.
\<close>

definition seen :: "env \<Rightarrow> (nat \<times> bytes) option list \<Rightarrow> proc \<Rightarrow> stdin_obs" where
  "seen e rs p =
     (case p_stdin p of
        Inherit \<Rightarrow> parent_stdin e
      | Parent_pipe \<Rightarrow> (if p_stdin_open p then Stalled (p_fed p) else Eof (p_fed p))
      | From_stdout j \<Rightarrow>
          (if j < length rs
           then (case rs ! j of Some (st, out) \<Rightarrow> Eof out | None \<Rightarrow> Stalled [])
           else Stalled []))"

definition run_one :: "env \<Rightarrow> (nat \<times> bytes) option list \<Rightarrow> proc \<Rightarrow> (nat \<times> bytes) option" where
  "run_one e rs p =
     (case programs e (p_cmd p) of
        Fails x \<Rightarrow> None
      | Launches t \<Rightarrow> t (seen e rs p))"

fun run_all :: "env \<Rightarrow> proc list \<Rightarrow> (nat \<times> bytes) option list \<Rightarrow> (nat \<times> bytes) option list" where
  "run_all e [] rs = rs"
| "run_all e (p # ps) rs = run_all e ps (rs @ [run_one e rs p])"

definition result_of :: "env \<Rightarrow> world \<Rightarrow> nat \<Rightarrow> (nat \<times> bytes) option" where
  "result_of e w h =
     (let rs = run_all e (procs w) []
      in if h < length rs then rs ! h else None)"

text \<open>
  \<^verbatim>\<open>subprocess.Popen(cmd, stdin=src, stdout=subprocess.PIPE)\<close>: the command string
  is looked up as given; when the launch fails the call raises the exception the
  environment gives for it (\<^verbatim>\<open>FileNotFoundError\<close> when nothing exists at that path,
  \<^verbatim>\<open>NotADirectoryError\<close> when a directory of the path is a regular file,
  \<^verbatim>\<open>PermissionError\<close> when the file may not be executed, and so on). The handle returned
  is the child's position in the table.
\<close>

definition Popen :: "env \<Rightarrow> string \<Rightarrow> stdin_src \<Rightarrow> nat action" where
  "Popen e cmd src w =
     (let w1 = w\<lparr>log := log w @ [Ev_Popen cmd]\<rparr>
      in case programs e cmd of
           Fails x \<Rightarrow> (Raises x, w1)
         | Launches t \<Rightarrow>
             (Returns (length (procs w)),
              w1\<lparr>procs := procs w @
                    [\<lparr>p_cmd = cmd, p_stdin = src, p_fed = [],
                      p_stdin_open = (src = Parent_pipe),
                      p_stdout_open = True, p_waited = False\<rparr>]\<rparr>))"

text \<open>\<^verbatim>\<open>h.stdout.close()\<close>: the script drops its own handle on the child's output.\<close>

definition close_stdout :: "nat \<Rightarrow> unit action" where
  "close_stdout h w =
     (Returns (),
      w\<lparr>procs := (procs w)[h := (procs w ! h)\<lparr>p_stdout_open := False\<rparr>],
        log := log w @ [Ev_close_stdout h]\<rparr>)"

text \<open>
  \<^verbatim>\<open>h.communicate()[0]\<close> with no input: read the child's standard output to end of
  stream, wait for the child, and give back the bytes read.
\<close>

definition communicate :: "env \<Rightarrow> nat \<Rightarrow> bytes action" where
  "communicate e h w =
     (let w1 = w\<lparr>log := log w @ [Ev_communicate h]\<rparr>
      in case result_of e w h of
           None \<Rightarrow> (Hangs, w1)
         | Some (st, out) \<Rightarrow>
             (Returns out,
              w1\<lparr>procs := (procs w)[h := (procs w ! h)\<lparr>p_stdout_open := False, p_waited := True\<rparr>]\<rparr>))"

text \<open>\<^verbatim>\<open>h.wait()\<close>: block until the child has terminated; gives its exit status.\<close>

definition wait :: "env \<Rightarrow> nat \<Rightarrow> nat action" where
  "wait e h w =
     (let w1 = w\<lparr>log := log w @ [Ev_wait h]\<rparr>
      in case result_of e w h of
           None \<Rightarrow> (Hangs, w1)
         | Some (st, out) \<Rightarrow>
             (Returns st, w1\<lparr>procs := (procs w)[h := (procs w ! h)\<lparr>p_waited := True\<rparr>]\<rparr>))"

subsection \<open>Files\<close>

text \<open>
  \<^verbatim>\<open>open(name, "w", encoding="utf-8")\<close>: creates the file or truncates it, and
  gives a text-mode handle (here: the name).
\<close>

definition open_w :: "env \<Rightarrow> string \<Rightarrow> string action" where
  "open_w e name w =
     (let w1 = w\<lparr>log := log w @ [Ev_open name]\<rparr>
      in if openable e name
         then (Returns name, w1\<lparr>files := (files w)(name \<mapsto> [])\<rparr>)
         else (Raises OSError, w1))"

text \<open>
  \<^verbatim>\<open>fh.write(v)\<close> on a text-mode handle: a \<^verbatim>\<open>str\<close> is appended, anything else
  raises \<^verbatim>\<open>TypeError\<close> and leaves the file as it is.
\<close>

definition fh_write :: "string \<Rightarrow> pyval \<Rightarrow> nat action" where
  "fh_write fh v w =
     (let w1 = w\<lparr>log := log w @ [Ev_write fh]\<rparr>
      in case v of
           PyStr s \<Rightarrow>
             (Returns (length s),
              w1\<lparr>files := (files w)(fh \<mapsto> (case files w fh of None \<Rightarrow> [] | Some c \<Rightarrow> c) @ s)\<rparr>)
         | PyBytes b \<Rightarrow> (Raises TypeError, w1))"

subsection \<open>The script\<close>

definition capture_cmd :: string where
  "capture_cmd = ''take_calibrated_picture/take_calibrated_picture''"

definition convert_cmd :: string where
  "convert_cmd = ''convert -:jpg pnm:-''"

definition potrace_cmd :: string where
  "potrace_cmd = ''potrace''"

definition getCalibratedJPEG :: "env \<Rightarrow> bytes action" where
  "getCalibratedJPEG e =
     then_do
       (except_FileNotFoundError
          (then_do (Popen e capture_cmd Inherit) (\<lambda>calibrated.
           communicate e calibrated))
          (sys_exit ''Please build the take_calibrated_picture script first.''))
       (\<lambda>output. return output)"

text \<open>The parameter \<^verbatim>\<open>jpg_data\<close> does not occur in the body, as in the source.\<close>

definition jpegToEPS :: "env \<Rightarrow> bytes \<Rightarrow> bytes action" where
  "jpegToEPS e jpg_data =
     then_do (Popen e convert_cmd Parent_pipe) (\<lambda>convert.
     then_do (Popen e potrace_cmd (From_stdout convert)) (\<lambda>potrace.
     then_do (close_stdout convert) (\<lambda>_.
     then_do (communicate e potrace) (\<lambda>output.
     then_do (wait e convert) (\<lambda>_.
     return output)))))"

definition getEPSDrawing :: "env \<Rightarrow> bytes action" where
  "getEPSDrawing e =
     then_do (getCalibratedJPEG e) (\<lambda>jpeg_data.
     then_do (jpegToEPS e jpeg_data) (\<lambda>eps_data.
     return eps_data))"

text \<open>The body under \<^verbatim>\<open>if __name__ == "__main__"\<close>, for a given \<^verbatim>\<open>sys.argv\<close>.\<close>

definition main :: "env \<Rightarrow> string list \<Rightarrow> nat action" where
  "main e argv =
     (if length argv < 2
      then then_do (index argv 0) (\<lambda>a0.
           sys_exit (''Usage: '' @ a0 @ '' OUTPUT_FILENAME.eps.''))
      else then_do (getEPSDrawing e) (\<lambda>eps_data.
           then_do (index argv 1) (\<lambda>name.
           then_do (open_w e name) (\<lambda>fh.
           fh_write fh (PyBytes eps_data)))))"

text \<open>
  How the interpreter ends for each outcome of the script: status 0 after a normal end;
  status 1 with the message on standard error after \<^verbatim>\<open>sys.exit(message)\<close>; status 1
  with a traceback after an uncaught exception; no exit at all when the script blocks.
\<close>

datatype stderr_text = Silent | Message string | Traceback exn

definition exit_status :: "'a outcome \<Rightarrow> nat option" where
  "exit_status r =
     (case r of Returns x \<Rightarrow> Some 0 | SysExit s \<Rightarrow> Some 1 | Raises x \<Rightarrow> Some 1 | Hangs \<Rightarrow> None)"

definition stderr_of :: "'a outcome \<Rightarrow> stderr_text" where
  "stderr_of r =
     (case r of Returns x \<Rightarrow> Silent | SysExit s \<Rightarrow> Message s | Raises x \<Rightarrow> Traceback x | Hangs \<Rightarrow> Silent)"

subsection \<open>Example environments\<close>

text \<open>
  Two kinds of external program. A filter reads its standard input up to end of stream and
  then writes a function of what it read (so it never terminates on a stream that stays
  open); the other kind terminates at once with a fixed status and output, whatever is on
  its standard input.
\<close>

definition filter_tool :: "nat \<Rightarrow> (bytes \<Rightarrow> bytes) \<Rightarrow> tool" where
  "filter_tool st f obs = (case obs of Eof bs \<Rightarrow> Some (st, f bs) | Stalled bs \<Rightarrow> None)"

definition ignores_stdin :: "nat \<Rightarrow> bytes \<Rightarrow> tool" where
  "ignores_stdin st out obs = Some (st, out)"

definition convert_fn :: "bytes \<Rightarrow> bytes" where
  "convert_fn bs = 0x50 # bs"

definition trace_fn :: "bytes \<Rightarrow> bytes" where
  "trace_fn bs = 0x25 # rev bs"

definition w0 :: world where
  "w0 = \<lparr>procs = [], files = Map.empty, log = []\<rparr>"

definition mk_env :: "launch \<Rightarrow> launch \<Rightarrow> launch \<Rightarrow> env" where
  "mk_env cap conv trace =
     \<lparr>programs = (\<lambda>cmd. if cmd = capture_cmd then cap
                         else if cmd = convert_cmd then conv
                         else if cmd = potrace_cmd then trace
                         else Fails FileNotFoundError),
      parent_stdin = Stalled [],
      openable = (\<lambda>name. True)\<rparr>"

definition pipe_env :: env where
  "pipe_env = mk_env (Launches (ignores_stdin 0 [0xFF, 0xD8]))
                     (Launches (filter_tool 0 convert_fn))
                     (Launches (filter_tool 0 trace_fn))"

definition failing_convert_env :: env where
  "failing_convert_env = mk_env (Launches (ignores_stdin 0 [0xFF, 0xD8]))
                                (Launches (ignores_stdin 1 []))
                                (Launches (filter_tool 2 trace_fn))"

text \<open>Nothing exists at the path of the capture tool.\<close>

definition no_capture_env :: env where
  "no_capture_env = mk_env (Fails FileNotFoundError)
                           (Launches (filter_tool 0 convert_fn))
                           (Launches (filter_tool 0 trace_fn))"

text \<open>
  The capture tool was built as a plain file \<^verbatim>\<open>take_calibrated_picture\<close>, where the script
  expects a directory of that name holding it.
\<close>

definition misplaced_capture_env :: env where
  "misplaced_capture_env = mk_env (Fails NotADirectoryError)
                                  (Launches (filter_tool 0 convert_fn))
                                  (Launches (filter_tool 0 trace_fn))"

text \<open>The capture tool runs; nothing exists at the path of the converter.\<close>

definition no_convert_env :: env where
  "no_convert_env = mk_env (Launches (ignores_stdin 0 [0xFF, 0xD8]))
                           (Fails FileNotFoundError)
                           (Launches (filter_tool 0 trace_fn))"

section \<open>Properties\<close>

lemmas env_defs = mk_env_def pipe_env_def failing_convert_env_def no_capture_env_def
  misplaced_capture_env_def no_convert_env_def filter_tool_def ignores_stdin_def convert_fn_def trace_fn_def w0_def

lemmas cmd_defs = capture_cmd_def convert_cmd_def potrace_cmd_def

lemmas call_defs = then_do_def return_def except_FileNotFoundError_def sys_exit_def index_def
  Popen_def close_stdout_def communicate_def wait_def open_w_def fh_write_def Let_def

subsection \<open>Results of child processes\<close>

lemma run_all_append: "run_all e (ps @ qs) rs = run_all e qs (run_all e ps rs)"
  by (induction ps arbitrary: rs) simp_all

lemma length_run_all: "length (run_all e ps rs) = length rs + length ps"
  by (induction ps arbitrary: rs) simp_all

lemmas run_simps = result_of_def run_all_append length_run_all nth_append run_one_def seen_def
  list_update_append

subsection \<open>The three functions, step by step\<close>

lemma getCalibratedJPEG_result:
  "getCalibratedJPEG e w =
     (case programs e capture_cmd of
        Fails x \<Rightarrow>
          (if x = FileNotFoundError
           then SysExit ''Please build the take_calibrated_picture script first.''
           else Raises x,
           w\<lparr>log := log w @ [Ev_Popen capture_cmd]\<rparr>)
      | Launches t \<Rightarrow>
          (case t (parent_stdin e) of
             None \<Rightarrow>
               (Hangs,
                w\<lparr>procs := procs w @
                      [\<lparr>p_cmd = capture_cmd, p_stdin = Inherit, p_fed = [], p_stdin_open = False,
                        p_stdout_open = True, p_waited = False\<rparr>],
                  log := log w @ [Ev_Popen capture_cmd, Ev_communicate (length (procs w))]\<rparr>)
           | Some (st, out) \<Rightarrow>
               (Returns out,
                w\<lparr>procs := procs w @
                      [\<lparr>p_cmd = capture_cmd, p_stdin = Inherit, p_fed = [], p_stdin_open = False,
                        p_stdout_open = False, p_waited = True\<rparr>],
                  log := log w @ [Ev_Popen capture_cmd, Ev_communicate (length (procs w))]\<rparr>)))"
  by (auto simp add: getCalibratedJPEG_def call_defs run_simps
      split: option.splits launch.splits exn.splits)

lemma jpegToEPS_outcome:
  "fst (jpegToEPS e jpg_data w) =
     (case programs e convert_cmd of
        Fails x \<Rightarrow> Raises x
      | Launches tc \<Rightarrow>
          (case programs e potrace_cmd of
             Fails x \<Rightarrow> Raises x
           | Launches tp \<Rightarrow>
               (case tc (Stalled []) of
                  None \<Rightarrow> Hangs
                | Some (sc, oc) \<Rightarrow>
                    (case tp (Eof oc) of
                       None \<Rightarrow> Hangs
                     | Some (st, out) \<Rightarrow> Returns out))))"
  by (auto simp add: jpegToEPS_def call_defs run_simps cmd_defs
      split: option.splits launch.splits)

lemma jpegToEPS_returns:
  assumes "jpegToEPS e jpg_data w = (Returns out, w')"
  shows "w' = w\<lparr>procs := procs w @
                  [\<lparr>p_cmd = convert_cmd, p_stdin = Parent_pipe, p_fed = [], p_stdin_open = True,
                    p_stdout_open = False, p_waited = True\<rparr>,
                   \<lparr>p_cmd = potrace_cmd, p_stdin = From_stdout (length (procs w)), p_fed = [],
                    p_stdin_open = False, p_stdout_open = False, p_waited = True\<rparr>],
                log := log w @
                  [Ev_Popen convert_cmd, Ev_Popen potrace_cmd, Ev_close_stdout (length (procs w)),
                   Ev_communicate (Suc (length (procs w))), Ev_wait (length (procs w))]\<rparr>"
  using assms
  by (auto simp add: jpegToEPS_def call_defs run_simps cmd_defs
      split: option.splits launch.splits)

lemma jpegToEPS_files: "files (snd (jpegToEPS e jpg_data w)) = files w"
  by (auto simp add: jpegToEPS_def call_defs split: option.splits launch.splits)

lemma jpegToEPS_files_pair: "jpegToEPS e jpg_data w = (r, w') \<Longrightarrow> files w' = files w"
  using jpegToEPS_files [of e jpg_data w] by simp

lemma getEPSDrawing_files: "files (snd (getEPSDrawing e w)) = files w"
  by (auto simp add: getEPSDrawing_def then_do_def return_def getCalibratedJPEG_result
      split: option.splits launch.splits outcome.splits prod.splits
      dest: jpegToEPS_files_pair)

lemma getEPSDrawing_steps:
  "getEPSDrawing e w =
     (case getCalibratedJPEG e w of
        (Returns jpeg_data, w1) \<Rightarrow> jpegToEPS e jpeg_data w1
      | (SysExit s, w1) \<Rightarrow> (SysExit s, w1)
      | (Raises x, w1) \<Rightarrow> (Raises x, w1)
      | (Hangs, w1) \<Rightarrow> (Hangs, w1))"
  by (auto simp add: getEPSDrawing_def then_do_def return_def
      split: outcome.splits prod.splits)


lemma main_files_unchanged:
  assumes "\<And>out. fst (getEPSDrawing e w) \<noteq> Returns out"
  shows "files (snd (main e argv w)) = files w"
proof (cases "getEPSDrawing e w")
  case (Pair r w1)
  have f: "files w1 = files w"
    using getEPSDrawing_files [of e w] Pair by simp
  from assms Pair have "\<And>out. r \<noteq> Returns out" by simp
  with Pair f show ?thesis
    by (cases r) (auto simp add: main_def then_do_def sys_exit_def index_def)
qed

lemma jpegToEPS_convert_launch_failure:
  assumes "programs e convert_cmd = Fails x"
  shows "jpegToEPS e jpg_data w = (Raises x, w\<lparr>log := log w @ [Ev_Popen convert_cmd]\<rparr>)"
  using assms by (simp add: jpegToEPS_def call_defs)

lemma jpegToEPS_potrace_launch_failure:
  assumes "programs e convert_cmd = Launches tc" and "programs e potrace_cmd = Fails x"
  shows "fst (jpegToEPS e jpg_data w) = Raises x"
  using assms by (simp add: jpegToEPS_outcome)

lemma jpegToEPS_ignores_jpg_data: "jpegToEPS e a = jpegToEPS e b"
  by (simp add: jpegToEPS_def)

lemma main_after_pipeline:
  assumes "getEPSDrawing e w = (Returns eps_data, w1)" and "2 \<le> length argv"
    and "openable e (argv ! 1)"
  shows "main e argv w =
           (Raises TypeError,
            w1\<lparr>files := (files w1)(argv ! 1 \<mapsto> []),
               log := log w1 @ [Ev_open (argv ! 1), Ev_write (argv ! 1)]\<rparr>)"
  using assms by (simp add: main_def call_defs)

text \<open>
  C1. The claim: \<^verbatim>\<open>jpegToEPS\<close> supplies the raster bytes to the conversion stage's standard
  input and returns the tracer's output on the conversion of those bytes. The code never
  writes \<^verbatim>\<open>jpg_data\<close> anywhere. With a converter and a tracer that are filters, for the
  input bytes FF D8: the call does not return the tracer's output on the converted input,
  the conversion process has been fed no byte, and the call behaves as on the empty input.
\<close>

theorem jpegToEPS_never_feeds_convert:
  "fst (jpegToEPS pipe_env [0xFF, 0xD8] w0) \<noteq> Returns (trace_fn (convert_fn [0xFF, 0xD8]))
   \<and> map p_cmd (procs (snd (jpegToEPS pipe_env [0xFF, 0xD8] w0))) = [convert_cmd, potrace_cmd]
   \<and> map p_fed (procs (snd (jpegToEPS pipe_env [0xFF, 0xD8] w0))) = [[], []]
   \<and> jpegToEPS pipe_env [0xFF, 0xD8] w0 = jpegToEPS pipe_env [] w0"
  by (simp add: jpegToEPS_def call_defs run_simps env_defs cmd_defs)

text \<open>
  C2. The claim: the raster bytes are supplied to the conversion stage's input stream, that
  stream is then closed, and the pipeline terminates. In the code the only close is of the
  script's handle on the converter's \<^emph>\<open>output\<close>; the write end of its input stays open.
  With filters as converter and tracer the call blocks in \<^verbatim>\<open>potrace.communicate()\<close>.
\<close>

theorem jpegToEPS_hangs_on_open_stdin:
  "fst (jpegToEPS pipe_env [0xFF, 0xD8] w0) = Hangs
   \<and> map p_stdin_open (procs (snd (jpegToEPS pipe_env [0xFF, 0xD8] w0))) = [True, False]
   \<and> log (snd (jpegToEPS pipe_env [0xFF, 0xD8] w0)) =
       [Ev_Popen convert_cmd, Ev_Popen potrace_cmd, Ev_close_stdout 0, Ev_communicate 1]"
  by (simp add: jpegToEPS_def call_defs run_simps env_defs cmd_defs)

text \<open>
  C3. With fewer than two entries in \<^verbatim>\<open>sys.argv\<close> (which always holds the script name),
  the script ends through \<^verbatim>\<open>sys.exit\<close> with the usage message, status 1, and the world is
  untouched: no process has been started, no call logged, no file opened.
\<close>

theorem usage_exit_before_any_tool:
  assumes "length argv < 2" and "argv \<noteq> []"
  shows "main e argv w = (SysExit (''Usage: '' @ hd argv @ '' OUTPUT_FILENAME.eps.''), w)
         \<and> exit_status (fst (main e argv w)) = Some 1
         \<and> stderr_of (fst (main e argv w)) = Message (''Usage: '' @ hd argv @ '' OUTPUT_FILENAME.eps.'')"
  using assms by (cases argv) (simp_all add: main_def call_defs exit_status_def stderr_of_def)

text \<open>The script called with no argument at all.\<close>

theorem usage_exit_before_any_tool_witness:
  "length [''drawingcnc.py''] < 2 \<and> [''drawingcnc.py''] \<noteq> []
   \<and> main pipe_env [''drawingcnc.py''] w0 =
       (SysExit ''Usage: drawingcnc.py OUTPUT_FILENAME.eps.'', w0)
   \<and> exit_status (fst (main pipe_env [''drawingcnc.py''] w0)) = Some 1"
  using usage_exit_before_any_tool [of "[''drawingcnc.py'']" pipe_env w0]
  by (simp add: exit_status_def)

text \<open>
  C4, as stated: whenever the capture tool cannot be located, the run ends with the message
  asking to build it. The handler is for \<^verbatim>\<open>FileNotFoundError\<close> alone. Where the tool was
  built as a plain file \<^verbatim>\<open>take_calibrated_picture\<close>, the path
  \<^verbatim>\<open>take_calibrated_picture/take_calibrated_picture\<close> leads nowhere, the launch fails with
  \<^verbatim>\<open>NotADirectoryError\<close>, and the run ends with a traceback and without that message.
\<close>

theorem capture_path_not_a_directory_raises:
  "fst (main misplaced_capture_env [''drawingcnc.py'', ''out.eps''] w0) = Raises NotADirectoryError
   \<and> stderr_of (fst (main misplaced_capture_env [''drawingcnc.py'', ''out.eps''] w0)) =
       Traceback NotADirectoryError
   \<and> fst (getEPSDrawing misplaced_capture_env w0) \<noteq>
       SysExit ''Please build the take_calibrated_picture script first.''"
  by (simp add: main_def getEPSDrawing_def getCalibratedJPEG_def call_defs env_defs cmd_defs
      stderr_of_def)

text \<open>
  C4, amended. When the launch of the capture tool fails, the pipeline (and the script, when
  it has its file name argument) ends at once with status 1, and the only call made is that
  failed launch, so neither the converter nor the tracer has been attempted. When the
  failure is \<^verbatim>\<open>FileNotFoundError\<close> the end is a \<^verbatim>\<open>sys.exit\<close> with the message asking to
  build the capture tool; any other failure leaves as the uncaught exception it is, with a
  traceback in place of the message.
\<close>

theorem capture_launch_failure_halts:
  assumes "programs e capture_cmd = Fails x" and "2 \<le> length argv"
  shows "getEPSDrawing e w =
           (if x = FileNotFoundError
            then SysExit ''Please build the take_calibrated_picture script first.''
            else Raises x,
            w\<lparr>log := log w @ [Ev_Popen capture_cmd]\<rparr>)
         \<and> main e argv w =
           (if x = FileNotFoundError
            then SysExit ''Please build the take_calibrated_picture script first.''
            else Raises x,
            w\<lparr>log := log w @ [Ev_Popen capture_cmd]\<rparr>)
         \<and> exit_status (fst (main e argv w)) = Some 1
         \<and> stderr_of (fst (main e argv w)) =
             (if x = FileNotFoundError
              then Message ''Please build the take_calibrated_picture script first.''
              else Traceback x)"
  using assms
  by (simp add: main_def getEPSDrawing_steps getCalibratedJPEG_result then_do_def
      exit_status_def stderr_of_def)

text \<open>Two runs with the file name given: no capture tool at all, and one that is misplaced.\<close>

theorem capture_launch_failure_halts_witness:
  "programs no_capture_env capture_cmd = Fails FileNotFoundError
   \<and> 2 \<le> length [''drawingcnc.py'', ''out.eps'']
   \<and> main no_capture_env [''drawingcnc.py'', ''out.eps''] w0 =
       (SysExit ''Please build the take_calibrated_picture script first.'',
        \<lparr>procs = [], files = Map.empty, log = [Ev_Popen capture_cmd]\<rparr>)
   \<and> programs misplaced_capture_env capture_cmd = Fails NotADirectoryError
   \<and> main misplaced_capture_env [''drawingcnc.py'', ''out.eps''] w0 =
       (Raises NotADirectoryError,
        \<lparr>procs = [], files = Map.empty, log = [Ev_Popen capture_cmd]\<rparr>)"
proof -
  have a: "programs no_capture_env capture_cmd = Fails FileNotFoundError"
    by (simp add: env_defs)
  have b: "programs misplaced_capture_env capture_cmd = Fails NotADirectoryError"
    by (simp add: env_defs)
  have n: "2 \<le> length [''drawingcnc.py'', ''out.eps'']"
    by simp
  show ?thesis
    using capture_launch_failure_halts [OF a n, of w0]
      capture_launch_failure_halts [OF b n, of w0] a b
    by (simp add: w0_def)
qed

text \<open>
  C5. The claim: on a successful run the bytes returned by the pipeline are written
  unmodified to the file named by the first argument, and nothing is printed. In the code
  the file is opened in text mode and the pipeline's result is \<^verbatim>\<open>bytes\<close>: where the
  pipeline returns the byte 25 (hex), the script creates \<^verbatim>\<open>out.eps\<close> empty and ends with an
  uncaught \<^verbatim>\<open>TypeError\<close>, status 1 and a traceback.
\<close>

theorem main_write_raises_TypeError:
  "fst (getEPSDrawing failing_convert_env w0) = Returns [0x25]
   \<and> fst (main failing_convert_env [''drawingcnc.py'', ''out.eps''] w0) = Raises TypeError
   \<and> files (snd (main failing_convert_env [''drawingcnc.py'', ''out.eps''] w0)) ''out.eps'' = Some []
   \<and> exit_status (fst (main failing_convert_env [''drawingcnc.py'', ''out.eps''] w0)) = Some 1
   \<and> stderr_of (fst (main failing_convert_env [''drawingcnc.py'', ''out.eps''] w0)) =
       Traceback TypeError"
  by (simp add: main_def getEPSDrawing_def getCalibratedJPEG_def jpegToEPS_def call_defs run_simps
      env_defs cmd_defs exit_status_def stderr_of_def)

text \<open>
  C6. \<^verbatim>\<open>getEPSDrawing\<close> is \<^verbatim>\<open>getCalibratedJPEG\<close> followed by \<^verbatim>\<open>jpegToEPS\<close> on its
  result, and nothing else: any other outcome of the capture step is passed on as it is.
  When the capture step returns, the world in which the conversion starts holds the capture
  process already waited for, terminated with the returned bytes as its output, and the
  log holds exactly the launch and the \<^verbatim>\<open>communicate\<close> of the capture tool.
\<close>

theorem getEPSDrawing_is_capture_then_trace:
  "getEPSDrawing e w =
     (case getCalibratedJPEG e w of
        (Returns jpeg_data, w1) \<Rightarrow> jpegToEPS e jpeg_data w1
      | (SysExit s, w1) \<Rightarrow> (SysExit s, w1)
      | (Raises x, w1) \<Rightarrow> (Raises x, w1)
      | (Hangs, w1) \<Rightarrow> (Hangs, w1))
   \<and> (\<forall>jpeg_data w1.
         getCalibratedJPEG e w = (Returns jpeg_data, w1) \<longrightarrow>
           procs w1 = procs w @
             [\<lparr>p_cmd = capture_cmd, p_stdin = Inherit, p_fed = [], p_stdin_open = False,
               p_stdout_open = False, p_waited = True\<rparr>]
           \<and> log w1 = log w @ [Ev_Popen capture_cmd, Ev_communicate (length (procs w))]
           \<and> (\<exists>st. result_of e w1 (length (procs w)) = Some (st, jpeg_data)))"
proof (intro conjI allI impI)
  show "getEPSDrawing e w =
     (case getCalibratedJPEG e w of
        (Returns jpeg_data, w1) \<Rightarrow> jpegToEPS e jpeg_data w1
      | (SysExit s, w1) \<Rightarrow> (SysExit s, w1)
      | (Raises x, w1) \<Rightarrow> (Raises x, w1)
      | (Hangs, w1) \<Rightarrow> (Hangs, w1))"
    by (rule getEPSDrawing_steps)
next
  fix jpeg_data w1
  assume r: "getCalibratedJPEG e w = (Returns jpeg_data, w1)"
  then obtain t st where t: "programs e capture_cmd = Launches t"
      and out: "t (parent_stdin e) = Some (st, jpeg_data)"
      and w1: "w1 = w\<lparr>procs := procs w @
                      [\<lparr>p_cmd = capture_cmd, p_stdin = Inherit, p_fed = [], p_stdin_open = False,
                        p_stdout_open = False, p_waited = True\<rparr>],
                  log := log w @ [Ev_Popen capture_cmd, Ev_communicate (length (procs w))]\<rparr>"
    by (auto simp add: getCalibratedJPEG_result split: option.splits launch.splits if_splits)
  show "procs w1 = procs w @
             [\<lparr>p_cmd = capture_cmd, p_stdin = Inherit, p_fed = [], p_stdin_open = False,
               p_stdout_open = False, p_waited = True\<rparr>]"
    by (simp add: w1)
  show "log w1 = log w @ [Ev_Popen capture_cmd, Ev_communicate (length (procs w))]"
    by (simp add: w1)
  show "\<exists>st. result_of e w1 (length (procs w)) = Some (st, jpeg_data)"
    using t out by (simp add: w1 run_simps)
qed

text \<open>A run where the capture tool returns the bytes FF D8.\<close>

theorem getEPSDrawing_is_capture_then_trace_witness:
  "getCalibratedJPEG failing_convert_env w0 =
     (Returns [0xFF, 0xD8],
      \<lparr>procs = [\<lparr>p_cmd = capture_cmd, p_stdin = Inherit, p_fed = [], p_stdin_open = False,
                 p_stdout_open = False, p_waited = True\<rparr>],
       files = Map.empty,
       log = [Ev_Popen capture_cmd, Ev_communicate 0]\<rparr>)
   \<and> getEPSDrawing failing_convert_env w0 =
       jpegToEPS failing_convert_env [0xFF, 0xD8]
         \<lparr>procs = [\<lparr>p_cmd = capture_cmd, p_stdin = Inherit, p_fed = [], p_stdin_open = False,
                    p_stdout_open = False, p_waited = True\<rparr>],
          files = Map.empty,
          log = [Ev_Popen capture_cmd, Ev_communicate 0]\<rparr>
   \<and> (\<exists>st. result_of failing_convert_env
          \<lparr>procs = [\<lparr>p_cmd = capture_cmd, p_stdin = Inherit, p_fed = [], p_stdin_open = False,
                    p_stdout_open = False, p_waited = True\<rparr>],
          files = Map.empty,
          log = [Ev_Popen capture_cmd, Ev_communicate 0]\<rparr> 0 = Some (st, [0xFF, 0xD8]))"
proof -
  have c: "getCalibratedJPEG failing_convert_env w0 =
     (Returns [0xFF, 0xD8],
      \<lparr>procs = [\<lparr>p_cmd = capture_cmd, p_stdin = Inherit, p_fed = [], p_stdin_open = False,
                 p_stdout_open = False, p_waited = True\<rparr>],
       files = Map.empty,
       log = [Ev_Popen capture_cmd, Ev_communicate 0]\<rparr>)"
    by (simp add: getCalibratedJPEG_def call_defs run_simps env_defs cmd_defs)
  show ?thesis
    using getEPSDrawing_is_capture_then_trace [of failing_convert_env w0] c
    by (simp add: w0_def)
qed

text \<open>
  C7. Whenever \<^verbatim>\<open>jpegToEPS\<close> returns, it has started exactly two processes, the converter
  and the tracer; both have terminated and both have been waited for, the tracer by
  \<^verbatim>\<open>communicate\<close> and the converter by the final \<^verbatim>\<open>wait\<close>, and the value returned is the
  tracer's output.
\<close>

theorem jpegToEPS_returns_after_both_waited:
  assumes "jpegToEPS e jpg_data w = (Returns out, w')"
  shows "length (procs w') = length (procs w) + 2
         \<and> p_cmd (procs w' ! length (procs w)) = convert_cmd
         \<and> p_waited (procs w' ! length (procs w))
         \<and> (\<exists>r. result_of e w' (length (procs w)) = Some r)
         \<and> p_cmd (procs w' ! Suc (length (procs w))) = potrace_cmd
         \<and> p_waited (procs w' ! Suc (length (procs w)))
         \<and> (\<exists>st. result_of e w' (Suc (length (procs w))) = Some (st, out))
         \<and> log w' = log w @
             [Ev_Popen convert_cmd, Ev_Popen potrace_cmd, Ev_close_stdout (length (procs w)),
              Ev_communicate (Suc (length (procs w))), Ev_wait (length (procs w))]"
proof -
  note w' = jpegToEPS_returns [OF assms]
  from assms have "fst (jpegToEPS e jpg_data w) = Returns out" by simp
  then obtain tc tp sc oc st where tc: "programs e convert_cmd = Launches tc"
      and tp: "programs e potrace_cmd = Launches tp"
      and rc: "tc (Stalled []) = Some (sc, oc)"
      and rp: "tp (Eof oc) = Some (st, out)"
    unfolding jpegToEPS_outcome by (auto split: option.splits launch.splits)
  have a: "length (procs w') = length (procs w) + 2"
    by (subst w') simp
  have b: "p_cmd (procs w' ! length (procs w)) = convert_cmd"
    by (subst w') (simp add: nth_append)
  have c: "p_waited (procs w' ! length (procs w))"
    by (subst w') (simp add: nth_append)
  have d: "result_of e w' (length (procs w)) = Some (sc, oc)"
    by (subst w') (simp add: run_simps tc rc)
  have f: "p_cmd (procs w' ! Suc (length (procs w))) = potrace_cmd"
    by (subst w') (simp add: nth_append)
  have g: "p_waited (procs w' ! Suc (length (procs w)))"
    by (subst w') (simp add: nth_append)
  have h: "result_of e w' (Suc (length (procs w))) = Some (st, out)"
    by (subst w') (simp add: run_simps tc tp rc rp)
  have i: "log w' = log w @
             [Ev_Popen convert_cmd, Ev_Popen potrace_cmd, Ev_close_stdout (length (procs w)),
              Ev_communicate (Suc (length (procs w))), Ev_wait (length (procs w))]"
    by (subst w') simp
  from a b c d f g h i show ?thesis by blast
qed

text \<open>A converter that terminates at once lets the call return.\<close>

theorem jpegToEPS_returns_after_both_waited_witness:
  "jpegToEPS failing_convert_env [0xFF, 0xD8] w0 =
     (Returns [0x25],
      \<lparr>procs = [\<lparr>p_cmd = convert_cmd, p_stdin = Parent_pipe, p_fed = [], p_stdin_open = True,
                 p_stdout_open = False, p_waited = True\<rparr>,
                \<lparr>p_cmd = potrace_cmd, p_stdin = From_stdout 0, p_fed = [],
                 p_stdin_open = False, p_stdout_open = False, p_waited = True\<rparr>],
       files = Map.empty,
       log = [Ev_Popen convert_cmd, Ev_Popen potrace_cmd, Ev_close_stdout 0,
              Ev_communicate 1, Ev_wait 0]\<rparr>)
   \<and> p_waited (procs (snd (jpegToEPS failing_convert_env [0xFF, 0xD8] w0)) ! 0)
   \<and> p_waited (procs (snd (jpegToEPS failing_convert_env [0xFF, 0xD8] w0)) ! 1)"
proof -
  have r: "jpegToEPS failing_convert_env [0xFF, 0xD8] w0 =
     (Returns [0x25],
      \<lparr>procs = [\<lparr>p_cmd = convert_cmd, p_stdin = Parent_pipe, p_fed = [], p_stdin_open = True,
                 p_stdout_open = False, p_waited = True\<rparr>,
                \<lparr>p_cmd = potrace_cmd, p_stdin = From_stdout 0, p_fed = [],
                 p_stdin_open = False, p_stdout_open = False, p_waited = True\<rparr>],
       files = Map.empty,
       log = [Ev_Popen convert_cmd, Ev_Popen potrace_cmd, Ev_close_stdout 0,
              Ev_communicate 1, Ev_wait 0]\<rparr>)"
    by (simp add: jpegToEPS_def call_defs run_simps env_defs cmd_defs)
  have p: "procs w0 = []" by (simp add: w0_def)
  show ?thesis
    using jpegToEPS_returns_after_both_waited [OF r] r by (simp add: p)
qed



text \<open>
  C9. On both error exits (too few arguments; the launch of the capture tool fails, in
  whatever way) the files are unchanged, no process has been started and at most the failed launch of the capture tool has been
  logged. More generally the files differ after the run only when the script had its file
  name argument and the pipeline had returned its result.
\<close>

theorem error_exits_leave_files_unchanged:
  "(length argv < 2 \<or> (\<exists>x. programs e capture_cmd = Fails x) \<longrightarrow>
      files (snd (main e argv w)) = files w
      \<and> procs (snd (main e argv w)) = procs w
      \<and> (log (snd (main e argv w)) = log w
         \<or> log (snd (main e argv w)) = log w @ [Ev_Popen capture_cmd]))
   \<and> (files (snd (main e argv w)) \<noteq> files w \<longrightarrow>
        2 \<le> length argv \<and> (\<exists>out. fst (getEPSDrawing e w) = Returns out))"
proof (intro conjI impI)
  assume h: "length argv < 2 \<or> (\<exists>x. programs e capture_cmd = Fails x)"
  show "files (snd (main e argv w)) = files w"
    using h
    by (auto simp add: main_def then_do_def sys_exit_def index_def getEPSDrawing_steps
        getCalibratedJPEG_result split: if_splits)
  show "procs (snd (main e argv w)) = procs w"
    using h
    by (auto simp add: main_def then_do_def sys_exit_def index_def getEPSDrawing_steps
        getCalibratedJPEG_result split: if_splits)
  show "log (snd (main e argv w)) = log w
         \<or> log (snd (main e argv w)) = log w @ [Ev_Popen capture_cmd]"
    using h
    by (auto simp add: main_def then_do_def sys_exit_def index_def getEPSDrawing_steps
        getCalibratedJPEG_result split: if_splits)
next
  assume c: "files (snd (main e argv w)) \<noteq> files w"
  show "2 \<le> length argv"
  proof (rule ccontr)
    assume "\<not> 2 \<le> length argv"
    then have "files (snd (main e argv w)) = files w"
      by (auto simp add: main_def then_do_def sys_exit_def index_def)
    with c show False by simp
  qed
  show "\<exists>out. fst (getEPSDrawing e w) = Returns out"
  proof (rule ccontr)
    assume "\<not> (\<exists>out. fst (getEPSDrawing e w) = Returns out)"
    then have "files (snd (main e argv w)) = files w"
      by (intro main_files_unchanged) simp
    with c show False by simp
  qed
qed

text \<open>Both error exits, and a run that does change the files.\<close>

theorem error_exits_leave_files_unchanged_witness:
  "length [''drawingcnc.py''] < 2
   \<and> files (snd (main pipe_env [''drawingcnc.py''] w0)) = files w0
   \<and> programs no_capture_env capture_cmd = Fails FileNotFoundError
   \<and> files (snd (main no_capture_env [''drawingcnc.py'', ''out.eps''] w0)) = files w0
   \<and> files (snd (main failing_convert_env [''drawingcnc.py'', ''out.eps''] w0)) \<noteq> files w0
   \<and> (\<exists>out. fst (getEPSDrawing failing_convert_env w0) = Returns out)"
proof -
  have a: "programs no_capture_env capture_cmd = Fails FileNotFoundError"
    by (simp add: env_defs)
  have b: "files (snd (main failing_convert_env [''drawingcnc.py'', ''out.eps''] w0)) \<noteq> files w0"
  proof
    assume "files (snd (main failing_convert_env [''drawingcnc.py'', ''out.eps''] w0)) = files w0"
    then have "files (snd (main failing_convert_env [''drawingcnc.py'', ''out.eps''] w0)) ''out.eps''
                 = files w0 ''out.eps''"
      by simp
    then show False
      by (simp add: main_def getEPSDrawing_def getCalibratedJPEG_def jpegToEPS_def call_defs
          run_simps env_defs cmd_defs)
  qed
  show ?thesis
    using error_exits_leave_files_unchanged [of "[''drawingcnc.py'']" pipe_env w0]
      error_exits_leave_files_unchanged [of "[''drawingcnc.py'', ''out.eps'']" no_capture_env w0]
      error_exits_leave_files_unchanged [of "[''drawingcnc.py'', ''out.eps'']" failing_convert_env w0]
      a b
    by simp
qed

text \<open>
  C10. Two argument vectors of at least two entries with the same entry at index 1 give the
  same run: same outcome and same final world.
\<close>

theorem extra_arguments_ignored:
  assumes "2 \<le> length a" and "2 \<le> length b" and "a ! 1 = b ! 1"
  shows "main e a w = main e b w"
proof -
  have "index a 1 = (index b 1 :: string action)"
    using assms by (auto simp add: index_def fun_eq_iff)
  with assms show ?thesis
    by (simp add: main_def)
qed

text \<open>Two extra arguments make no difference.\<close>

theorem extra_arguments_ignored_witness:
  "2 \<le> length [''drawingcnc.py'', ''out.eps'', ''--fast'', ''x'']
   \<and> 2 \<le> length [''drawingcnc.py'', ''out.eps'']
   \<and> [''drawingcnc.py'', ''out.eps'', ''--fast'', ''x''] ! 1 = [''drawingcnc.py'', ''out.eps''] ! 1
   \<and> main failing_convert_env [''drawingcnc.py'', ''out.eps'', ''--fast'', ''x''] w0
       = main failing_convert_env [''drawingcnc.py'', ''out.eps''] w0"
  using extra_arguments_ignored
    [of "[''drawingcnc.py'', ''out.eps'', ''--fast'', ''x'']" "[''drawingcnc.py'', ''out.eps'']"
        failing_convert_env w0]
  by simp

end
